theory Spec2Isabelle
  imports Complex_Main "HOL-Library.Sublist"
begin

section \<open>JavaScript values read and written by the routes\<close>

text \<open>
  A number as \<^verbatim>\<open>JSON.parse\<close> yields it: the value of a finite double, or one of
  the two infinities, which a literal too large for a double gives (\<^verbatim>\<open>1e400\<close>).
\<close>

datatype js_num = Num rat | PosInfinity | NegInfinity

text \<open>
  A value produced by \<^verbatim>\<open>JSON.parse\<close>; an object is its list of own properties.
  \<^verbatim>\<open>undefined\<close> is not a JSON value: a JavaScript expression that may be
  \<^verbatim>\<open>undefined\<close> has type \<open>json option\<close>, with \<open>None\<close> for \<^verbatim>\<open>undefined\<close>.
\<close>

datatype json =
    JNull
  | JBool bool
  | JNum js_num
  | JStr string
  | JArr "json list"
  | JObj "(string \<times> json) list"

text \<open>
  A thrown value: an instance of \<^verbatim>\<open>Error\<close> with its message, or anything else.
\<close>

datatype js_exn = JsError string | JsThrown

text \<open>Sequencing of steps that may throw.\<close>

definition bind_exn :: "js_exn + 'a \<Rightarrow> ('a \<Rightarrow> js_exn + 'b) \<Rightarrow> js_exn + 'b" where
  "bind_exn r f = (case r of Inl e \<Rightarrow> Inl e | Inr v \<Rightarrow> f v)"

text \<open>JavaScript truthiness, as \<^verbatim>\<open>!x\<close> and \<^verbatim>\<open>x || y\<close> test it.\<close>

fun truthy :: "json option \<Rightarrow> bool" where
  "truthy None = False"
| "truthy (Some JNull) = False"
| "truthy (Some (JBool b)) = b"
| "truthy (Some (JNum n)) = (n \<noteq> Num 0)"
| "truthy (Some (JStr s)) = (s \<noteq> [])"
| "truthy (Some (JArr xs)) = True"
| "truthy (Some (JObj kvs)) = True"

definition js_or :: "json option \<Rightarrow> json option \<Rightarrow> json option" where
  "js_or a b = (if truthy a then a else b)"

text \<open>
  The property read \<^verbatim>\<open>v.k\<close>. On \<^verbatim>\<open>null\<close> and \<^verbatim>\<open>undefined\<close> it throws a
  TypeError (message as V8 words it); on an object it is the own property or
  \<^verbatim>\<open>undefined\<close>; an array and a string have \<^verbatim>\<open>length\<close>. Members inherited from the
  prototypes are left out: the routes read only the names status, match, artist, title,
  genre, confidence, audio_similarity, lyrics_similarity, progress, error, message,
  youtubeUrl and length, and none of them is inherited by the value it is read from.
\<close>

fun get_prop :: "json option \<Rightarrow> string \<Rightarrow> js_exn + json option" where
  "get_prop None k =
     Inl (JsError (''Cannot read properties of undefined (reading '' @ [CHR 0x27] @ k @ [CHR 0x27] @ '')''))"
| "get_prop (Some JNull) k =
     Inl (JsError (''Cannot read properties of null (reading '' @ [CHR 0x27] @ k @ [CHR 0x27] @ '')''))"
| "get_prop (Some (JObj kvs)) k = Inr (map_of kvs k)"
| "get_prop (Some (JArr xs)) k =
     Inr (if k = ''length'' then Some (JNum (Num (of_nat (length xs)))) else None)"
| "get_prop (Some (JStr s)) k =
     Inr (if k = ''length'' then Some (JNum (Num (of_nat (length s)))) else None)"
| "get_prop (Some (JBool b)) k = Inr None"
| "get_prop (Some (JNum n)) k = Inr None"

text \<open>
  An object literal. A property whose value is \<^verbatim>\<open>undefined\<close> is left out: the
  routes only pass their objects to \<^verbatim>\<open>JSON.stringify\<close>, which omits it.
\<close>

fun present :: "(string \<times> json option) list \<Rightarrow> (string \<times> json) list" where
  "present [] = []"
| "present ((k, None) # fs) = present fs"
| "present ((k, Some v) # fs) = (k, v) # present fs"

definition obj_literal :: "(string \<times> json option) list \<Rightarrow> json" where
  "obj_literal fs = JObj (present fs)"

text \<open>
  What the reader of \<^verbatim>\<open>JSON.stringify(v)\<close> gets back from \<^verbatim>\<open>JSON.parse\<close>: a
  number that is not finite is written as \<^verbatim>\<open>null\<close>, at any depth; every other value
  is read back as it was.
\<close>

primrec wire :: "json \<Rightarrow> json" where
  "wire JNull = JNull"
| "wire (JBool b) = JBool b"
| "wire (JNum n) = (case n of Num r \<Rightarrow> JNum (Num r) | PosInfinity \<Rightarrow> JNull | NegInfinity \<Rightarrow> JNull)"
| "wire (JStr s) = JStr s"
| "wire (JArr xs) = JArr (map wire xs)"
| "wire (JObj kvs) = JObj (map (map_prod id wire) kvs)"

text \<open>Reading a field of an event on the wire.\<close>

fun field :: "json \<Rightarrow> string \<Rightarrow> json option" where
  "field (JObj kvs) k = map_of kvs k"
| "field _ k = None"

fun keys :: "json \<Rightarrow> string list" where
  "keys (JObj kvs) = map fst kvs"
| "keys _ = []"

section \<open>Strings\<close>

text \<open>\<^verbatim>\<open>s.split('\n')\<close>: one more piece than there are line feeds.\<close>

fun split_nl :: "string \<Rightarrow> string list" where
  "split_nl [] = [[]]"
| "split_nl (c # cs) =
     (if c = CHR 0x0A then [] # split_nl cs
      else (case split_nl cs of [] \<Rightarrow> [[c]] | l # ls \<Rightarrow> (c # l) # ls))"

text \<open>
  \<^verbatim>\<open>s.trim()\<close>: white space and line terminators are removed at both ends (of the
  characters below 256: tab, line feed, vertical tab, form feed, carriage return, space
  and no-break space).
\<close>

definition is_ws :: "char \<Rightarrow> bool" where
  "is_ws c = (c \<in> set [CHR 0x09, CHR 0x0A, CHR 0x0B, CHR 0x0C, CHR 0x0D, CHR 0x20, CHR 0xA0])"

definition trim :: "string \<Rightarrow> string" where
  "trim s = rev (dropWhile is_ws (rev (dropWhile is_ws s)))"

text \<open>\<^verbatim>\<open>s.includes(t)\<close>, \<^verbatim>\<open>s.startsWith(t)\<close>, \<^verbatim>\<open>s.endsWith(t)\<close>.\<close>

definition str_includes :: "string \<Rightarrow> string \<Rightarrow> bool" where
  "str_includes s t = sublist t s"

definition startsWith :: "string \<Rightarrow> string \<Rightarrow> bool" where
  "startsWith s t = prefix t s"

definition endsWith :: "string \<Rightarrow> string \<Rightarrow> bool" where
  "endsWith s t = suffix t s"

text \<open>A number in a template literal, for the natural numbers (an HTTP status).\<close>

fun show_nat_fuel :: "nat \<Rightarrow> nat \<Rightarrow> string" where
  "show_nat_fuel 0 n = []"
| "show_nat_fuel (Suc f) n =
     (if n < 10 then [char_of (48 + n)]
      else show_nat_fuel f (n div 10) @ [char_of (48 + n mod 10)])"

definition show_nat :: "nat \<Rightarrow> string" where
  "show_nat n = show_nat_fuel (Suc n) n"

section \<open>POST /api/match: the relay of the backend's events\<close>

text \<open>
  The body of the inner \<^verbatim>\<open>try\<close> of route.ts after \<^verbatim>\<open>JSON.parse\<close>: the update built
  from the backend's event \<open>data\<close>. A TypeError of a property read leaves through
  \<open>Inl\<close>.
\<close>

definition transform :: "json \<Rightarrow> js_exn + json" where
  "transform data =
     bind_exn (get_prop (Some data) ''status'') (\<lambda>status.
       if status = Some (JStr ''complete'') then
         bind_exn (get_prop (Some data) ''match'') (\<lambda>m.
         bind_exn (get_prop m ''artist'') (\<lambda>artist.
         bind_exn (get_prop (Some data) ''match'') (\<lambda>m.
         bind_exn (get_prop m ''title'') (\<lambda>title.
         bind_exn (get_prop (Some data) ''match'') (\<lambda>m.
         bind_exn (get_prop m ''genre'') (\<lambda>genre.
         bind_exn (get_prop (Some data) ''confidence'') (\<lambda>confidence.
         bind_exn (get_prop (Some data) ''audio_similarity'') (\<lambda>audio_similarity.
         bind_exn (get_prop (Some data) ''lyrics_similarity'') (\<lambda>lyrics_similarity.
           Inr (obj_literal
             [(''status'', Some (JStr ''complete'')),
              (''progress'', Some (JNum (Num 100))),
              (''match'', Some (obj_literal
                 [(''artist'', artist), (''title'', title), (''genre'', genre)])),
              (''confidence'', confidence),
              (''audioSim'', audio_similarity),
              (''lyricsSim'', lyrics_similarity)]))))))))))
       else if status = Some (JStr ''error'') then
         bind_exn (get_prop (Some data) ''progress'') (\<lambda>progress.
         bind_exn (get_prop (Some data) ''error'') (\<lambda>err.
         bind_exn (get_prop (Some data) ''message'') (\<lambda>message.
           Inr (obj_literal
             [(''status'', Some (JStr ''error'')),
              (''progress'', js_or progress (Some (JNum (Num 0)))),
              (''error'', js_or (js_or err message) (Some (JStr ''Unknown error'')))]))))
       else
         bind_exn (get_prop (Some data) ''status'') (\<lambda>status.
         bind_exn (get_prop (Some data) ''progress'') (\<lambda>progress.
         bind_exn (get_prop (Some data) ''message'') (\<lambda>message.
           Inr (obj_literal
             [(''status'', status), (''progress'', progress), (''message'', message)])))))"

text \<open>
  One pass of \<^verbatim>\<open>for (const line of lines)\<close>: a line that is blank after trimming or
  does not start with \<^verbatim>\<open>data: \<close> is skipped; the rest after the six characters is
  parsed (\<open>parse\<close> stands for \<^verbatim>\<open>JSON.parse\<close>) and transformed, and the update is
  enqueued. Whatever the \<^verbatim>\<open>try\<close> throws is logged and the line enqueues nothing.
  The result is the list of events the line enqueues. An event is enqueued as the text
  \<^verbatim>\<open>data: \<close>, the \<^verbatim>\<open>JSON.stringify\<close> of the update and two line feeds; the model
  keeps the update as the client's \<^verbatim>\<open>JSON.parse\<close> reads it back, \<open>wire update\<close>.
\<close>

definition forward_line :: "(string \<Rightarrow> js_exn + json) \<Rightarrow> string \<Rightarrow> json list" where
  "forward_line parse line =
     (let trimmedLine = trim line in
      if trimmedLine = [] \<or> \<not> startsWith trimmedLine ''data: '' then []
      else (case bind_exn (parse (drop 6 trimmedLine)) transform of
              Inl parseError \<Rightarrow> []
            | Inr update \<Rightarrow> [wire update]))"

fun forward_lines :: "(string \<Rightarrow> js_exn + json) \<Rightarrow> string list \<Rightarrow> json list" where
  "forward_lines parse [] = []"
| "forward_lines parse (line # lines) = forward_line parse line @ forward_lines parse lines"

text \<open>\<^verbatim>\<open>lines.pop() || ''\<close>: the last piece, the empty string when there is none.\<close>

definition pop_last :: "string list \<Rightarrow> string" where
  "pop_last lines = (if lines = [] then [] else last lines)"

text \<open>
  What \<^verbatim>\<open>reader.read()\<close> gives before the stream is done: a chunk (already decoded
  to text) or a failure. The end of the list is \<^verbatim>\<open>done\<close>. The flag of a failure
  tells whether the stream had already failed when the reader's owner was handed the
  chunk before it; it matters only to an owner that cancels the reader, since cancelling
  a stream that has failed does nothing and the next read still throws.
\<close>

datatype read_result = Chunk string | ReadThrows js_exn bool

text \<open>
  The \<^verbatim>\<open>while (true)\<close> loop of the route: the events enqueued, and the exception
  that ended the loop if a read threw.
\<close>

fun read_loop ::
  "(string \<Rightarrow> js_exn + json) \<Rightarrow> string \<Rightarrow> read_result list \<Rightarrow> json list \<times> js_exn option" where
  "read_loop parse buffer [] = ([], None)"
| "read_loop parse buffer (ReadThrows e early # rest) = ([], Some e)"
| "read_loop parse buffer (Chunk c # rest) =
     (let lines = split_nl (buffer @ c);
          (events, thrown) = read_loop parse (pop_last lines) rest
      in (forward_lines parse (butlast lines) @ events, thrown))"

text \<open>The backend's answer to \<^verbatim>\<open>fetch\<close>.\<close>

datatype backend_response =
  BackendResponse (resp_ok: bool) (resp_status: nat) (resp_text: "js_exn + string")
    (resp_body: "read_result list option")

definition errorUpdate :: "string \<Rightarrow> json" where
  "errorUpdate msg =
     obj_literal
       [(''status'', Some (JStr ''error'')),
        (''progress'', Some (JNum (Num 0))),
        (''error'', Some (JStr msg))]"

text \<open>\<^verbatim>\<open>error instanceof Error ? error.message : fallback\<close>.\<close>

definition message_or :: "string \<Rightarrow> js_exn \<Rightarrow> string" where
  "message_or fallback e = (case e of JsError m \<Rightarrow> m | JsThrown \<Rightarrow> fallback)"

text \<open>
  \<^verbatim>\<open>start(controller)\<close>: the events enqueued before the stream is closed, each as
  the client reads it back. Every path ends in \<^verbatim>\<open>controller.close()\<close>.
\<close>

definition start ::
  "(string \<Rightarrow> js_exn + json) \<Rightarrow> js_exn + backend_response \<Rightarrow> json list" where
  "start parse fetched =
     (case fetched of
        Inl e \<Rightarrow> [wire (errorUpdate (message_or ''Unknown streaming error'' e))]
      | Inr response \<Rightarrow>
          if \<not> resp_ok response then
            (case resp_text response of
               Inl e \<Rightarrow> [wire (errorUpdate (message_or ''Unknown streaming error'' e))]
             | Inr errorText \<Rightarrow>
                 [wire (errorUpdate
                    (''Backend error: '' @ show_nat (resp_status response) @ '' - '' @ errorText))])
          else
            (case resp_body response of
               None \<Rightarrow> [wire (errorUpdate ''No response body from backend'')]
             | Some chunks \<Rightarrow>
                 (case read_loop parse [] chunks of
                    (events, None) \<Rightarrow> events
                  | (events, Some e) \<Rightarrow>
                      events @ [wire (errorUpdate (message_or ''Unknown streaming error'' e))])))"



section \<open>POST /api/match: request validation\<close>

text \<open>
  What \<^verbatim>\<open>new URL(url)\<close> gives when it does not throw: the parts the check reads.
  \<open>searchParams\<close> is the list of parameter names.
\<close>

record url_obj =
  hostname :: string
  pathname :: string
  searchParams :: "string list"

text \<open>\<^verbatim>\<open>toLowerCase\<close> on the letters A to Z.\<close>

definition toLowerCase :: "string \<Rightarrow> string" where
  "toLowerCase s =
     map (\<lambda>c. if (65::nat) \<le> of_char c \<and> of_char c \<le> (90::nat)
              then char_of (of_char c + (32::nat)) else c) s"

definition validDomains :: "string list" where
  "validDomains = [''youtube.com'', ''www.youtube.com'', ''m.youtube.com'', ''youtu.be'']"

text \<open>\<^verbatim>\<open>try { body } catch { handler }\<close>.\<close>

definition try_catch :: "js_exn + 'a \<Rightarrow> (js_exn \<Rightarrow> js_exn + 'a) \<Rightarrow> js_exn + 'a" where
  "try_catch body handler = (case body of Inl e \<Rightarrow> handler e | Inr v \<Rightarrow> Inr v)"

text \<open>
  \<open>URL\<close> stands for the platform's \<^verbatim>\<open>new URL(...)\<close>, which throws on what it cannot
  parse. The argument is the value of \<^verbatim>\<open>body.youtubeUrl\<close> as the request carries it
  (a string is \<open>JStr s\<close>).
\<close>

definition isValidYouTubeUrl :: "(json \<Rightarrow> js_exn + url_obj) \<Rightarrow> json \<Rightarrow> js_exn + bool" where
  "isValidYouTubeUrl URL url =
     try_catch
       (bind_exn (URL url) (\<lambda>urlObj.
          let hostname = toLowerCase (hostname urlObj) in
          if \<not> list_ex (\<lambda>domain. hostname = domain \<or> endsWith hostname (''.'' @ domain)) validDomains
          then Inr False
          else if str_includes hostname ''youtu.be'' then Inr (length (pathname urlObj) > 1)
          else
            let hasVideoParam = (''v'' \<in> set (searchParams urlObj));
                isEmbedPath = str_includes (pathname urlObj) ''/embed/'';
                isWatchPath = str_includes (pathname urlObj) ''/watch''
            in Inr (hasVideoParam \<or> isEmbedPath \<or> isWatchPath)))
       (\<lambda>e. Inr False)"

text \<open>
  A response of a route: a JSON body with its status, or the event stream (status 200)
  with the events it carries until it is closed.
\<close>

datatype response = JsonResponse nat json | StreamResponse "json list"

text \<open>
  The handler. \<open>request_json\<close> is the outcome of \<^verbatim>\<open>await request.json()\<close>, \<open>fetched\<close>
  the outcome of the call to the backend, made only once the stream starts.
\<close>

definition POST ::
  "(json \<Rightarrow> js_exn + url_obj) \<Rightarrow> (string \<Rightarrow> js_exn + json) \<Rightarrow> js_exn + json \<Rightarrow>
   js_exn + backend_response \<Rightarrow> response" where
  "POST URL parse request_json fetched =
     (case
        bind_exn request_json (\<lambda>body.
        bind_exn (get_prop (Some body) ''youtubeUrl'') (\<lambda>youtubeUrl.
          case youtubeUrl of
            None \<Rightarrow>
              Inr (JsonResponse 400 (obj_literal [(''error'', Some (JStr ''YouTube URL is required''))]))
          | Some url \<Rightarrow>
              if \<not> truthy (Some url) then
                Inr (JsonResponse 400 (obj_literal [(''error'', Some (JStr ''YouTube URL is required''))]))
              else
                bind_exn (isValidYouTubeUrl URL url) (\<lambda>valid.
                  if \<not> valid then
                    Inr (JsonResponse 400
                           (obj_literal [(''error'', Some (JStr ''Invalid YouTube URL format''))]))
                  else Inr (StreamResponse (start parse fetched)))))
      of
        Inr r \<Rightarrow> r
      | Inl error \<Rightarrow>
          JsonResponse 500
            (obj_literal
               [(''error'', Some (JStr ''Failed to process request'')),
                (''details'', Some (JStr (message_or ''Unknown error'' error)))]))"

section \<open>GET /api/songs\<close>

text \<open>
  \<open>file\<close> is the outcome of \<^verbatim>\<open>readFileSync\<close> on studio_songs.json.
\<close>

definition GET :: "(string \<Rightarrow> js_exn + json) \<Rightarrow> js_exn + string \<Rightarrow> response" where
  "GET parse file =
     (case
        bind_exn file (\<lambda>fileContent.
        bind_exn (parse fileContent) (\<lambda>songs.
        bind_exn (get_prop (Some songs) ''length'') (\<lambda>len.
          Inr (JsonResponse 200 (obj_literal [(''songs'', Some songs), (''count'', len)])))))
      of
        Inr r \<Rightarrow> r
      | Inl (JsError message) \<Rightarrow>
          if str_includes message ''ENOENT'' then
            JsonResponse 404
              (obj_literal
                 [(''error'', Some (JStr ''Songs file not found'')),
                  (''details'', Some (JStr ''studio_songs.json could not be located''))])
          else
            JsonResponse 500
              (obj_literal
                 [(''error'', Some (JStr ''Failed to load songs'')),
                  (''details'', Some (JStr message))])
      | Inl JsThrown \<Rightarrow>
          JsonResponse 500
            (obj_literal
               [(''error'', Some (JStr ''Failed to load songs'')),
                (''details'', Some (JStr ''Unknown error''))]))"

section \<open>The client hook useMatchStream\<close>

text \<open>
  The three state variables of the hook. A state value is a JavaScript value:
  \<open>Some JNull\<close> is \<^verbatim>\<open>null\<close>, \<open>None\<close> is \<^verbatim>\<open>undefined\<close>.
\<close>

record hook_state =
  currentUpdate :: "json option"
  isStreaming :: bool
  error :: "json option"

text \<open>
  One pass of the \<^verbatim>\<open>for\<close> loop of \<^verbatim>\<open>startMatch\<close>. The flag is True when the pass
  ended in \<^verbatim>\<open>reader.cancel(); break\<close>. An exception inside the \<^verbatim>\<open>try\<close> is logged
  and the loop goes on with the state as it was when it was thrown.
\<close>

definition hook_line ::
  "(string \<Rightarrow> js_exn + json) \<Rightarrow> hook_state \<Rightarrow> string \<Rightarrow> hook_state \<times> bool" where
  "hook_line parse st line =
     (let trimmedLine = trim line in
      if trimmedLine = [] \<or> \<not> startsWith trimmedLine ''data: '' then (st, False)
      else
        (case parse (drop 6 trimmedLine) of
           Inl parseError \<Rightarrow> (st, False)
         | Inr update \<Rightarrow>
             (let st1 = st\<lparr>currentUpdate := Some update\<rparr> in
              case get_prop (Some update) ''status'' of
                Inl parseError \<Rightarrow> (st1, False)
              | Inr status \<Rightarrow>
                  if status = Some (JStr ''complete'') \<or> status = Some (JStr ''error'') then
                    (let st2 = st1\<lparr>isStreaming := False\<rparr> in
                     if status = Some (JStr ''error'') then
                       (case get_prop (Some update) ''error'' of
                          Inl parseError \<Rightarrow> (st2, False)
                        | Inr e \<Rightarrow> (st2\<lparr>error := e\<rparr>, True))
                     else (st2, True))
                  else (st1, False))))"

fun hook_lines ::
  "(string \<Rightarrow> js_exn + json) \<Rightarrow> hook_state \<Rightarrow> string list \<Rightarrow> hook_state \<times> bool" where
  "hook_lines parse st [] = (st, False)"
| "hook_lines parse st (line # lines) =
     (case hook_line parse st line of
        (st', True) \<Rightarrow> (st', True)
      | (st', False) \<Rightarrow> hook_lines parse st' lines)"

text \<open>The \<^verbatim>\<open>catch (err)\<close> of \<^verbatim>\<open>startMatch\<close>.\<close>

definition hook_catch :: "hook_state \<Rightarrow> js_exn \<Rightarrow> hook_state" where
  "hook_catch st err =
     st\<lparr>error := Some (JStr (message_or ''Unknown error'' err)), isStreaming := False\<rparr>"

text \<open>
  The \<^verbatim>\<open>while (true)\<close> loop of \<^verbatim>\<open>startMatch\<close>. The flag of the result tells
  whether \<^verbatim>\<open>reader.cancel()\<close> has been called, the flag among the arguments whether
  it had been when the loop is entered. The \<^verbatim>\<open>break\<close> of the inner loop leaves only
  the \<^verbatim>\<open>for\<close>: the outer loop reads once more. That read is \<^verbatim>\<open>done\<close> when the
  cancellation closed the stream, whatever the stream still held; when the stream had
  already failed, the cancellation did nothing, the read throws and the \<^verbatim>\<open>catch\<close> of
  \<^verbatim>\<open>startMatch\<close> runs.
\<close>

fun hook_loop ::
  "(string \<Rightarrow> js_exn + json) \<Rightarrow> hook_state \<Rightarrow> string \<Rightarrow> bool \<Rightarrow> read_result list \<Rightarrow>
   hook_state \<times> bool" where
  "hook_loop parse st buffer True (ReadThrows err True # rest) = (hook_catch st err, True)"
| "hook_loop parse st buffer True chunks = (st\<lparr>isStreaming := False\<rparr>, True)"
| "hook_loop parse st buffer False [] = (st\<lparr>isStreaming := False\<rparr>, False)"
| "hook_loop parse st buffer False (ReadThrows err early # rest) = (hook_catch st err, False)"
| "hook_loop parse st buffer False (Chunk c # rest) =
     (let lines = split_nl (buffer @ c);
          (st', cancelled) = hook_lines parse st (butlast lines)
      in hook_loop parse st' (pop_last lines) cancelled rest)"

text \<open>The answer of \<^verbatim>\<open>fetch('/api/match')\<close> as the hook reads it.\<close>

datatype client_response =
  ClientResponse (c_ok: bool) (c_status: nat) (c_json: "js_exn + json")
    (c_body: "read_result list option")

text \<open>
  \<^verbatim>\<open>new Error(v).message\<close>: the string itself, and for another value its conversion to
  a string, \<open>to_str\<close>.
\<close>

definition error_message :: "(json \<Rightarrow> string) \<Rightarrow> json option \<Rightarrow> string" where
  "error_message to_str v =
     (case v of None \<Rightarrow> [] | Some (JStr s) \<Rightarrow> s | Some w \<Rightarrow> to_str w)"

definition startMatch ::
  "(json \<Rightarrow> string) \<Rightarrow> (string \<Rightarrow> js_exn + json) \<Rightarrow> hook_state \<Rightarrow>
   js_exn + client_response \<Rightarrow> hook_state \<times> bool" where
  "startMatch to_str parse st0 fetched =
     (let st = st0\<lparr>isStreaming := True, error := Some JNull, currentUpdate := Some JNull\<rparr> in
      case fetched of
        Inl err \<Rightarrow> (hook_catch st err, False)
      | Inr response \<Rightarrow>
          if \<not> c_ok response then
            (case
               bind_exn (c_json response) (\<lambda>errorData.
               bind_exn (get_prop (Some errorData) ''error'') (\<lambda>e.
                 Inr (js_or e
                        (Some (JStr (''HTTP error! status: '' @ show_nat (c_status response)))))))
             of
               Inl err \<Rightarrow> (hook_catch st err, False)
             | Inr m \<Rightarrow> (hook_catch st (JsError (error_message to_str m)), False))
          else
            (case c_body response of
               None \<Rightarrow> (hook_catch st (JsError ''No response body''), False)
             | Some chunks \<Rightarrow> hook_loop parse st [] False chunks))"

section \<open>The home page\<close>

datatype ProcessingStage =
  Idle | Downloading | Fingerprinting | Transcribing | Matching | Complete | Error

record MatchResult =
  match :: "json option"
  confidence :: "json option"
  audioSim :: "json option"
  lyricsSim :: "json option"

text \<open>
  The state of the page that \<^verbatim>\<open>handleAnalyze\<close> changes (\<open>page_error\<close> is its
  \<^verbatim>\<open>error\<close>); \<open>None\<close> is \<^verbatim>\<open>null\<close>.
\<close>

record page_state =
  processingStage :: ProcessingStage
  result :: "MatchResult option"
  page_error :: "string option"
  urlError :: "string option"








text \<open>\<^verbatim>\<open>result.match?.title\<close>: \<^verbatim>\<open>undefined\<close> when the match is null or undefined.\<close>

definition opt_chain :: "json option \<Rightarrow> string \<Rightarrow> json option" where
  "opt_chain v k = (case get_prop v k of Inl e \<Rightarrow> None | Inr w \<Rightarrow> w)"

text \<open>
  The results section of the page: what it shows. The two cards with a track carry its
  title and artist, the badge and the two similarities (before formatting).
\<close>

datatype results_view =
    NoResultsSection
  | MatchFound "json option" "json option" "json option" "json option" "json option"
  | NeedsReview "json option" "json option" "json option" "json option" "json option"
  | NoMatchFound

definition results_section :: "page_state \<Rightarrow> results_view" where
  "results_section st =
     (case result st of
        None \<Rightarrow> NoResultsSection
      | Some r \<Rightarrow>
          if processingStage st \<noteq> Complete then NoResultsSection
          else if confidence r = Some (JStr ''HIGH'') \<or> confidence r = Some (JStr ''MODERATE'') then
            MatchFound (opt_chain (match r) ''title'') (opt_chain (match r) ''artist'')
              (confidence r) (audioSim r) (lyricsSim r)
          else if confidence r = Some (JStr ''LOW'') then
            NeedsReview (opt_chain (match r) ''title'') (opt_chain (match r) ''artist'')
              (confidence r) (audioSim r) (lyricsSim r)
          else NoMatchFound)"

text \<open>Whether the section shows the matched track.\<close>

fun shows_track :: "results_view \<Rightarrow> bool" where
  "shows_track (MatchFound t a c au ly) = True"
| "shows_track (NeedsReview t a c au ly) = True"
| "shows_track v = False"

section \<open>The confidence classifier\<close>

datatype ConfidenceLevel = HIGH | MODERATE | LOW | VERY_LOW


text \<open>
  Modelled from the spec: the classifier of the backend (matcher_v7.py) is not among the
  sources. The table of section 4.3: gap at least 0.20 is HIGH, at least 0.10 MODERATE,
  at least 0.05 LOW, below 0.05 VERY_LOW.
\<close>

definition confidence_of_gap :: "rat \<Rightarrow> ConfidenceLevel" where
  "confidence_of_gap gap =
     (if gap \<ge> 0.20 then HIGH
      else if gap \<ge> 0.10 then MODERATE
      else if gap \<ge> 0.05 then LOW
      else VERY_LOW)"

text \<open>
  Modelled from the spec: ranking and classification (section 4.3) belong to the backend,
  which is not among the sources. A scored track is a reference track with the two
  similarities of the query against it; the combined score is the fixed fusion
  0.30 audio + 0.70 lyrics; the tracks are sorted by combined score, highest first, by a
  stable sort; the first five are top5; the gap is the difference between the first two
  combined scores; the tier is a function of the gap. With fewer than two tracks the gap
  is undefined and there is no result.
\<close>

record ScoredTrack =
  track_artist :: string
  track_title :: string
  track_genre :: "string option"
  track_audioSim :: rat
  track_lyricsSim :: rat

definition combinedScore :: "ScoredTrack \<Rightarrow> rat" where
  "combinedScore t = 0.30 * track_audioSim t + 0.70 * track_lyricsSim t"


record Classified =
  top5 :: "ScoredTrack list"
  gap :: rat
  level :: ConfidenceLevel


text \<open>
  Modelled from the spec: the events of the orchestrator, which is part of the backend and
  not among the sources. Section 4.4: each forward transition emits a progress event with
  its milestone (downloading 0, fingerprinting 25, transcribing 50, matching 75), and a
  run that completes ends with the terminal success event. Section 6: a progress event is
  \<^verbatim>\<open>{status, progress, message?}\<close>; the terminal success event carries status complete,
  progress 100, the match \<^verbatim>\<open>{artist, title, genre?}\<close> (the first of the ranking), the
  confidence, audioSim, lyricsSim, combinedScore and gap, and top5 as a list of
  \<^verbatim>\<open>{artist, title, audioSim, lyricsSim, combinedScore}\<close>.
\<close>

definition stage_event :: "string \<Rightarrow> rat \<Rightarrow> json" where
  "stage_event name milestone =
     JObj [(''status'', JStr name), (''progress'', JNum (Num milestone))]"





section \<open>Lines and terminal events\<close>

text \<open>
  The texts a reader is handed before its first failing read, and that failure.
\<close>

fun texts_read :: "read_result list \<Rightarrow> string list" where
  "texts_read [] = []"
| "texts_read (Chunk c # rest) = c # texts_read rest"
| "texts_read (ReadThrows err early # rest) = []"

fun read_failure :: "read_result list \<Rightarrow> js_exn option" where
  "read_failure [] = None"
| "read_failure (Chunk c # rest) = read_failure rest"
| "read_failure (ReadThrows err early # rest) = Some err"

text \<open>
  The complete lines of a text that arrives in pieces: the lines that a line feed ends.
\<close>

definition complete_lines :: "string list \<Rightarrow> string list" where
  "complete_lines texts = butlast (split_nl (concat texts))"

text \<open>
  The update a line of the stream carries for the hook: the tests of its \<^verbatim>\<open>for\<close>
  loop (the trimmed line is not empty and starts with \<^verbatim>\<open>data: \<close>) and the result of
  \<^verbatim>\<open>JSON.parse\<close> on the rest, \<open>None\<close> when the line is skipped or does not parse.
\<close>

definition line_update :: "(string \<Rightarrow> js_exn + json) \<Rightarrow> string \<Rightarrow> json option" where
  "line_update parse line =
     (let trimmedLine = trim line in
      if trimmedLine = [] \<or> \<not> startsWith trimmedLine ''data: '' then None
      else (case parse (drop 6 trimmedLine) of Inl parseError \<Rightarrow> None | Inr update \<Rightarrow> Some update))"


text \<open>
  \<^verbatim>\<open>update.status === 'complete' || update.status === 'error'\<close>, on an update whose
  status can be read.
\<close>

definition is_terminal :: "json \<Rightarrow> bool" where
  "is_terminal update =
     (field update ''status'' = Some (JStr ''complete'') \<or>
      field update ''status'' = Some (JStr ''error''))"

text \<open>
  The shape of a non-terminal event in section 6 of the spec: the status is one of the
  four stage names, the progress an integer from 0 to 100, the message a string when
  there is one.
\<close>

definition stage_names :: "string list" where
  "stage_names = [''downloading'', ''fingerprinting'', ''transcribing'', ''matching'']"

definition well_formed_progress :: "json \<Rightarrow> bool" where
  "well_formed_progress ev =
     (list_ex (\<lambda>name. field ev ''status'' = Some (JStr name)) stage_names \<and>
      (case field ev ''progress'' of
         Some (JNum (Num r)) \<Rightarrow> r = of_int \<lfloor>r\<rfloor> \<and> 0 \<le> r \<and> r \<le> 100
       | _ \<Rightarrow> False) \<and>
      (case field ev ''message'' of
         None \<Rightarrow> True
       | Some (JStr m) \<Rightarrow> True
       | _ \<Rightarrow> False))"

section \<open>Sample inputs\<close>

text \<open>
  Event texts as the backend may send them and as the route forwards them, with the
  values \<^verbatim>\<open>JSON.parse\<close> gives for them. \<open>sample_parse\<close> is \<^verbatim>\<open>JSON.parse\<close> on
  these texts and fails on every other text.
\<close>

abbreviation (input) backend_complete_text :: string where
  \<open>backend_complete_text \<equiv>
     ''{"status":"complete","match":{"artist":"Oasis","title":"Wonderwall"},"confidence":"VERY_LOW","audio_similarity":0.75,"lyrics_similarity":0.5,"combinedScore":0.575,"gap":0.03,"top5":[]}''\<close>

abbreviation (input) backend_complete :: json where
  "backend_complete \<equiv>
     JObj [(''status'', JStr ''complete''),
           (''match'', JObj [(''artist'', JStr ''Oasis''), (''title'', JStr ''Wonderwall'')]),
           (''confidence'', JStr ''VERY_LOW''),
           (''audio_similarity'', JNum (Num 0.75)),
           (''lyrics_similarity'', JNum (Num 0.5)),
           (''combinedScore'', JNum (Num 0.575)),
           (''gap'', JNum (Num 0.03)),
           (''top5'', JArr [])]"

abbreviation (input) forwarded_complete :: json where
  "forwarded_complete \<equiv>
     JObj [(''status'', JStr ''complete''),
           (''progress'', JNum (Num 100)),
           (''match'', JObj [(''artist'', JStr ''Oasis''), (''title'', JStr ''Wonderwall'')]),
           (''confidence'', JStr ''VERY_LOW''),
           (''audioSim'', JNum (Num 0.75)),
           (''lyricsSim'', JNum (Num 0.5))]"

abbreviation (input) backend_error_text :: string where
  \<open>backend_error_text \<equiv> ''{"status":"error","message":"Download failed","progress":25}''\<close>

abbreviation (input) backend_error :: json where
  "backend_error \<equiv>
     JObj [(''status'', JStr ''error''), (''message'', JStr ''Download failed''),
           (''progress'', JNum (Num 25))]"

abbreviation (input) forwarded_error_text :: string where
  \<open>forwarded_error_text \<equiv> ''{"status":"error","progress":25,"error":"Download failed"}''\<close>

abbreviation (input) forwarded_error :: json where
  "forwarded_error \<equiv>
     JObj [(''status'', JStr ''error''), (''progress'', JNum (Num 25)),
           (''error'', JStr ''Download failed'')]"

abbreviation (input) backend_progress_text :: string where
  \<open>backend_progress_text \<equiv> ''{"status":"downloading","message":"Downloading audio...","progress":0}''\<close>

abbreviation (input) backend_progress :: json where
  "backend_progress \<equiv>
     JObj [(''status'', JStr ''downloading''), (''message'', JStr ''Downloading audio...''),
           (''progress'', JNum (Num 0))]"

abbreviation (input) forwarded_progress :: json where
  "forwarded_progress \<equiv>
     JObj [(''status'', JStr ''downloading''), (''progress'', JNum (Num 0)),
           (''message'', JStr ''Downloading audio...'')]"

abbreviation (input) backend_queued_text :: string where
  \<open>backend_queued_text \<equiv> ''{"status":"queued","progress":150,"message":7}''\<close>

abbreviation (input) backend_queued :: json where
  "backend_queued \<equiv>
     JObj [(''status'', JStr ''queued''), (''progress'', JNum (Num 150)), (''message'', JNum (Num 7))]"

abbreviation (input) songs_text :: string where
  \<open>songs_text \<equiv>
     ''[{"artist":"Oasis","title":"Wonderwall","genre":"Unknown"},{"artist":"Nirvana","title":"Smells Like Teen Spirit","genre":"Unknown"}]''\<close>

abbreviation (input) songs_value :: json where
  "songs_value \<equiv>
     JArr [JObj [(''artist'', JStr ''Oasis''), (''title'', JStr ''Wonderwall''),
                 (''genre'', JStr ''Unknown'')],
           JObj [(''artist'', JStr ''Nirvana''), (''title'', JStr ''Smells Like Teen Spirit''),
                 (''genre'', JStr ''Unknown'')]]"

abbreviation (input) backend_odd_error_text :: string where
  \<open>backend_odd_error_text \<equiv> ''{"status":"error","error":"Transcription failed","progress":37.5}''\<close>

abbreviation (input) backend_odd_error :: json where
  "backend_odd_error \<equiv>
     JObj [(''status'', JStr ''error''), (''error'', JStr ''Transcription failed''),
           (''progress'', JNum (Num 37.5))]"

abbreviation (input) forwarded_odd_error :: json where
  "forwarded_odd_error \<equiv>
     JObj [(''status'', JStr ''error''), (''progress'', JNum (Num 37.5)),
           (''error'', JStr ''Transcription failed'')]"

abbreviation (input) backend_overflow_text :: string where
  \<open>backend_overflow_text \<equiv> ''{"status":"downloading","progress":1e400}''\<close>

abbreviation (input) backend_overflow :: json where
  "backend_overflow \<equiv>
     JObj [(''status'', JStr ''downloading''), (''progress'', JNum PosInfinity)]"

abbreviation (input) forwarded_overflow :: json where
  "forwarded_overflow \<equiv> JObj [(''status'', JStr ''downloading''), (''progress'', JNull)]"


abbreviation (input) run_downloading_text :: string where
  \<open>run_downloading_text \<equiv> ''{"status":"downloading","progress":0}''\<close>

abbreviation (input) run_fingerprinting_text :: string where
  \<open>run_fingerprinting_text \<equiv> ''{"status":"fingerprinting","progress":25}''\<close>

abbreviation (input) run_transcribing_text :: string where
  \<open>run_transcribing_text \<equiv> ''{"status":"transcribing","progress":50}''\<close>

abbreviation (input) run_matching_text :: string where
  \<open>run_matching_text \<equiv> ''{"status":"matching","progress":75}''\<close>

abbreviation (input) run_complete_text :: string where
  \<open>run_complete_text \<equiv>
     ''{"status":"complete","progress":100,"match":{"artist":"Oasis","title":"Wonderwall"},"confidence":"VERY_LOW","audioSim":0.75,"lyricsSim":0.5,"combinedScore":0.575,"gap":0.03,"top5":[{"artist":"Oasis","title":"Wonderwall","audioSim":0.75,"lyricsSim":0.5,"combinedScore":0.575},{"artist":"Nirvana","title":"Smells Like Teen Spirit","audioSim":0.65,"lyricsSim":0.5,"combinedScore":0.545}]}''\<close>

abbreviation (input) run_complete :: json where
  "run_complete \<equiv>
     JObj [(''status'', JStr ''complete''),
           (''progress'', JNum (Num 100)),
           (''match'', JObj [(''artist'', JStr ''Oasis''), (''title'', JStr ''Wonderwall'')]),
           (''confidence'', JStr ''VERY_LOW''),
           (''audioSim'', JNum (Num 0.75)),
           (''lyricsSim'', JNum (Num 0.5)),
           (''combinedScore'', JNum (Num 0.575)),
           (''gap'', JNum (Num 0.03)),
           (''top5'',
              JArr [JObj [(''artist'', JStr ''Oasis''), (''title'', JStr ''Wonderwall''),
                          (''audioSim'', JNum (Num 0.75)), (''lyricsSim'', JNum (Num 0.5)),
                          (''combinedScore'', JNum (Num 0.575))],
                    JObj [(''artist'', JStr ''Nirvana''),
                          (''title'', JStr ''Smells Like Teen Spirit''),
                          (''audioSim'', JNum (Num 0.65)), (''lyricsSim'', JNum (Num 0.5)),
                          (''combinedScore'', JNum (Num 0.545))]])]"

abbreviation (input) run_forwarded_complete_text :: string where
  \<open>run_forwarded_complete_text \<equiv>
     ''{"status":"complete","progress":100,"match":{"artist":"Oasis","title":"Wonderwall"},"confidence":"VERY_LOW"}''\<close>

abbreviation (input) run_forwarded_complete :: json where
  "run_forwarded_complete \<equiv>
     JObj [(''status'', JStr ''complete''),
           (''progress'', JNum (Num 100)),
           (''match'', JObj [(''artist'', JStr ''Oasis''), (''title'', JStr ''Wonderwall'')]),
           (''confidence'', JStr ''VERY_LOW'')]"

abbreviation (input) sample_texts :: "(string \<times> json) list" where
  "sample_texts \<equiv>
     [(backend_complete_text, backend_complete),
      (backend_error_text, backend_error),
      (forwarded_error_text, forwarded_error),
      (backend_progress_text, backend_progress),
      (backend_queued_text, backend_queued),
      (backend_odd_error_text, backend_odd_error),
      (backend_overflow_text, backend_overflow),
      (run_downloading_text, stage_event ''downloading'' 0),
      (run_fingerprinting_text, stage_event ''fingerprinting'' 25),
      (run_transcribing_text, stage_event ''transcribing'' 50),
      (run_matching_text, stage_event ''matching'' 75),
      (run_complete_text, run_complete),
      (run_forwarded_complete_text, run_forwarded_complete),
      (songs_text, songs_value)]"

abbreviation (input) sample_parse :: "string \<Rightarrow> js_exn + json" where
  "sample_parse \<equiv> case_option (Inl (JsError ''Unexpected token'')) Inr \<circ> map_of sample_texts"


text \<open>
  \<open>sample_URL\<close> is \<^verbatim>\<open>new URL\<close> on three addresses and throws on every other value.
\<close>

abbreviation (input) sample_URL :: "json \<Rightarrow> js_exn + url_obj" where
  "sample_URL \<equiv>
     case_option (Inl (JsError ''Invalid URL'')) Inr \<circ>
     map_of
       [(JStr ''https://www.youtube.com/watch?v=dQw4w9WgXcQ'',
           \<lparr>hostname = ''www.youtube.com'', pathname = ''/watch'', searchParams = [''v'']\<rparr>),
        (JStr ''https://youtu.be/dQw4w9WgXcQ'',
           \<lparr>hostname = ''youtu.be'', pathname = ''/dQw4w9WgXcQ'', searchParams = []\<rparr>),
        (JStr ''https://example.com/watch?v=dQw4w9WgXcQ'',
           \<lparr>hostname = ''example.com'', pathname = ''/watch'', searchParams = [''v'']\<rparr>)]"

text \<open>A line of the event stream: the text after \<^verbatim>\<open>data: \<close>, then a line feed.\<close>

abbreviation (input) sse_line :: "string \<Rightarrow> string" where
  "sse_line text \<equiv> ''data: '' @ text @ [CHR 0x0A]"

section \<open>Confidence tiers\<close>

text \<open>
  C5: for every gap the tier is HIGH exactly when the gap is at least 0.20, MODERATE
  exactly when it is at least 0.10 and below 0.20, LOW exactly when it is at least 0.05
  and below 0.10, and VERY_LOW exactly when it is below 0.05; the lower edge of each
  band belongs to the band.
\<close>

theorem confidence_bands:
  "(confidence_of_gap g = HIGH) = (0.20 \<le> g) \<and>
   (confidence_of_gap g = MODERATE) = (0.10 \<le> g \<and> g < 0.20) \<and>
   (confidence_of_gap g = LOW) = (0.05 \<le> g \<and> g < 0.10) \<and>
   (confidence_of_gap g = VERY_LOW) = (g < 0.05)"
  by (simp add: confidence_of_gap_def)

theorem confidence_bands_witness:
  "confidence_of_gap 0.20 = HIGH \<and> confidence_of_gap 0.10 = MODERATE \<and>
   confidence_of_gap 0.05 = LOW \<and> confidence_of_gap 0.0499 = VERY_LOW"
  using confidence_bands [of "0.20"] confidence_bands [of "0.10"]
    confidence_bands [of "0.05"] confidence_bands [of "0.0499"]
  by simp

section \<open>Facts about property reads, object literals and the wire\<close>

lemma get_prop_field:
  "d \<noteq> JNull \<Longrightarrow> k \<noteq> ''length'' \<Longrightarrow> get_prop (Some d) k = Inr (field d k)"
  by (cases d) simp_all

lemma map_of_present_None:
  "k \<notin> fst ` set fs \<Longrightarrow> map_of (present fs) k = None"
  by (induction fs rule: present.induct) auto

lemma map_of_present:
  "distinct (map fst fs) \<Longrightarrow>
   map_of (present fs) k = (case map_of fs k of None \<Rightarrow> None | Some v \<Rightarrow> v)"
  by (induction fs rule: present.induct) (auto simp: map_of_present_None)

lemma field_obj_literal:
  "distinct (map fst fs) \<Longrightarrow>
   field (obj_literal fs) k = (case map_of fs k of None \<Rightarrow> None | Some v \<Rightarrow> v)"
  by (simp add: obj_literal_def map_of_present)

lemma keys_present: "set (map fst (present fs)) \<subseteq> fst ` set fs"
  by (induction fs rule: present.induct) auto

lemma keys_obj_literal: "set (keys (obj_literal fs)) \<subseteq> fst ` set fs"
  using keys_present by (simp add: obj_literal_def)

lemma map_of_wire:
  "map_of (map (map_prod id wire) kvs) k = map_option wire (map_of kvs k)"
  by (induction kvs) auto

lemma field_wire: "field (wire v) k = map_option wire (field v k)"
  by (cases v) (simp_all add: map_of_wire split: js_num.splits)

lemma keys_wire: "keys (wire v) = keys v"
  by (cases v) (simp_all add: comp_def split: js_num.splits)

lemma wire_eq_JStr: "(wire v = JStr s) = (v = JStr s)"
  by (cases v) (auto split: js_num.splits)

lemma wire_eq_Num: "(wire v = JNum (Num r)) = (v = JNum (Num r))"
  by (cases v) (auto split: js_num.splits)

lemma wire_eq_JNum: "wire v = JNum n \<Longrightarrow> v = JNum n"
  by (cases v) (auto split: js_num.splits)

lemma js_or_Some: "\<exists>v. js_or a (Some b) = Some v"
  by (cases a) (simp_all add: js_or_def)

lemma wire_errorUpdate:
  "wire (errorUpdate msg) =
     JObj [(''status'', JStr ''error''), (''progress'', JNum (Num 0)), (''error'', JStr msg)]"
  by (simp add: errorUpdate_def obj_literal_def)

section \<open>The three shapes of a forwarded update\<close>

lemma transform_Inr:
  assumes "transform data = Inr u"
  shows
    "(field data ''status'' = Some (JStr ''complete'') \<and>
      (\<exists>d. field data ''match'' = Some d \<and> d \<noteq> JNull \<and>
         u = obj_literal
           [(''status'', Some (JStr ''complete'')),
            (''progress'', Some (JNum (Num 100))),
            (''match'', Some (obj_literal
               [(''artist'', field d ''artist''), (''title'', field d ''title''),
                (''genre'', field d ''genre'')])),
            (''confidence'', field data ''confidence''),
            (''audioSim'', field data ''audio_similarity''),
            (''lyricsSim'', field data ''lyrics_similarity'')]))
     \<or> (field data ''status'' = Some (JStr ''error'') \<and>
        u = obj_literal
          [(''status'', Some (JStr ''error'')),
           (''progress'', js_or (field data ''progress'') (Some (JNum (Num 0)))),
           (''error'', js_or (js_or (field data ''error'') (field data ''message''))
                        (Some (JStr ''Unknown error'')))])
     \<or> (field data ''status'' \<noteq> Some (JStr ''complete'') \<and>
        field data ''status'' \<noteq> Some (JStr ''error'') \<and>
        u = obj_literal
          [(''status'', field data ''status''), (''progress'', field data ''progress''),
           (''message'', field data ''message'')])"
proof -
  have nn: "data \<noteq> JNull"
    using assms by (auto simp: transform_def bind_exn_def)
  have gp: "\<And>k. k \<noteq> ''length'' \<Longrightarrow> get_prop (Some data) k = Inr (field data k)"
    using nn by (simp add: get_prop_field)
  show ?thesis
  proof (cases "field data ''status'' = Some (JStr ''complete'')")
    case complete: True
    show ?thesis
    proof (cases "field data ''match''")
      case None
      with complete assms show ?thesis
        by (simp add: transform_def bind_exn_def gp)
    next
      case (Some d)
      show ?thesis
      proof (cases "d = JNull")
        case True
        with Some complete assms show ?thesis
          by (simp add: transform_def bind_exn_def gp)
      next
        case False
        with Some complete assms show ?thesis
          by (simp add: transform_def bind_exn_def gp get_prop_field)
      qed
    qed
  next
    case False
    with assms show ?thesis
      by (auto simp add: transform_def bind_exn_def gp split: if_splits)
  qed
qed




section \<open>Lines, chunks and the reading loops\<close>

lemma split_nl_not_Nil: "split_nl s \<noteq> []"
  by (induction s) (auto split: list.splits)

lemma split_nl_no_nl: "CHR 0x0A \<notin> set s \<Longrightarrow> split_nl s = [s]"
  by (induction s) auto

lemma last_split_nl_no_nl: "CHR 0x0A \<notin> set (last (split_nl s))"
  by (induction s) (auto simp: split_nl_not_Nil split: list.splits)

lemma pop_last_split_nl: "pop_last (split_nl s) = last (split_nl s)"
  by (simp add: pop_last_def split_nl_not_Nil)

lemma split_nl_append:
  "split_nl (xs @ ys) = butlast (split_nl xs) @ split_nl (last (split_nl xs) @ ys)"
proof (induction xs)
  case Nil
  show ?case by simp
next
  case (Cons c cs)
  obtain l ls where S: "split_nl cs = l # ls"
    using split_nl_not_Nil [of cs] by (cases "split_nl cs") auto
  show ?case
  proof (cases "c = CHR 0x0A")
    case True
    with Cons S show ?thesis by simp
  next
    case False
    show ?thesis
    proof (cases ls)
      case Nil
      with False Cons S show ?thesis by simp
    next
      case (Cons m ms)
      with False Cons.IH S show ?thesis by simp
    qed
  qed
qed

lemma butlast_split_nl_append:
  "butlast (split_nl (xs @ ys)) =
   butlast (split_nl xs) @ butlast (split_nl (last (split_nl xs) @ ys))"
  by (subst split_nl_append) (simp add: butlast_append split_nl_not_Nil)

lemma last_split_nl_append:
  "last (split_nl (xs @ ys)) = last (split_nl (last (split_nl xs) @ ys))"
  by (subst split_nl_append) (simp add: split_nl_not_Nil)

lemma forward_lines_append:
  "forward_lines parse (xs @ ys) = forward_lines parse xs @ forward_lines parse ys"
  by (induction xs) simp_all

lemma forward_line_update:
  "forward_line parse line =
     (case line_update parse line of
        None \<Rightarrow> []
      | Some data \<Rightarrow> (case transform data of Inl e \<Rightarrow> [] | Inr u \<Rightarrow> [wire u]))"
  by (auto simp: forward_line_def line_update_def Let_def bind_exn_def split: sum.splits)

lemma forward_lines_origin:
  "ev \<in> set (forward_lines parse lines) \<Longrightarrow>
   \<exists>line data u. line \<in> set lines \<and> line_update parse line = Some data \<and>
     transform data = Inr u \<and> ev = wire u"
proof (induction lines)
  case Nil
  then show ?case by simp
next
  case (Cons l ls)
  from Cons.prems have "ev \<in> set (forward_line parse l) \<or> ev \<in> set (forward_lines parse ls)"
    by simp
  then show ?case
  proof
    assume "ev \<in> set (forward_line parse l)"
    then have "\<exists>data u. line_update parse l = Some data \<and> transform data = Inr u \<and> ev = wire u"
      by (cases "line_update parse l"; cases "transform (the (line_update parse l))")
         (auto simp: forward_line_update)
    then show ?thesis by auto
  next
    assume "ev \<in> set (forward_lines parse ls)"
    from Cons.IH [OF this] show ?thesis by auto
  qed
qed

lemma read_loop_lines:
  "CHR 0x0A \<notin> set buffer \<Longrightarrow>
   read_loop parse buffer chunks =
     (forward_lines parse (butlast (split_nl (buffer @ concat (texts_read chunks)))),
      read_failure chunks)"
proof (induction parse buffer chunks rule: read_loop.induct)
  case (1 parse buffer)
  then show ?case by (simp add: split_nl_no_nl)
next
  case (2 parse buffer e early rest)
  then show ?case by (simp add: split_nl_no_nl)
next
  case (3 parse buffer c rest)
  have nl: "CHR 0x0A \<notin> set (pop_last (split_nl (buffer @ c)))"
    by (simp add: pop_last_split_nl last_split_nl_no_nl)
  have b: "butlast (split_nl (buffer @ concat (texts_read (Chunk c # rest)))) =
      butlast (split_nl (buffer @ c)) @
      butlast (split_nl (last (split_nl (buffer @ c)) @ concat (texts_read rest)))"
    using butlast_split_nl_append [of "buffer @ c" "concat (texts_read rest)"] by simp
  from "3.IH" [OF refl nl] show ?case
    unfolding b by (simp add: Let_def pop_last_split_nl forward_lines_append)
qed

lemma start_body:
  "start parse (Inr (BackendResponse True code errorText (Some chunks))) =
     forward_lines parse (complete_lines (texts_read chunks)) @
     (case read_failure chunks of
        None \<Rightarrow> []
      | Some e \<Rightarrow> [wire (errorUpdate (message_or ''Unknown streaming error'' e))])"
  using read_loop_lines [of "[]" parse chunks]
  by (simp add: start_def complete_lines_def split: option.splits)

lemma start_origin:
  assumes "ev \<in> set (start parse fetched)"
  shows "(\<exists>msg. ev = wire (errorUpdate msg) \<and>
      ((\<exists>e. fetched = Inl e) \<or>
       (\<exists>response. fetched = Inr response \<and>
          (resp_ok response \<longrightarrow> resp_body response = None \<or>
             (\<exists>chunks e. resp_body response = Some chunks \<and> read_failure chunks = Some e))))) \<or>
    (\<exists>response chunks line data u.
       fetched = Inr response \<and> resp_ok response \<and> resp_body response = Some chunks \<and>
       line \<in> set (complete_lines (texts_read chunks)) \<and>
       line_update parse line = Some data \<and> transform data = Inr u \<and> ev = wire u)"
proof (cases fetched)
  case (Inl e)
  with assms show ?thesis by (auto simp: start_def)
next
  case (Inr response)
  show ?thesis
  proof (cases "resp_ok response")
    case False
    with Inr assms show ?thesis by (auto simp: start_def split: sum.splits)
  next
    case True
    show ?thesis
    proof (cases "resp_body response")
      case None
      with True Inr assms show ?thesis by (auto simp: start_def)
    next
      case (Some chunks)
      have r: "response = BackendResponse True (resp_status response) (resp_text response)
          (Some chunks)"
        using True Some by (cases response) simp
      have "ev \<in> set (forward_lines parse (complete_lines (texts_read chunks))) \<or>
          (\<exists>msg e. ev = wire (errorUpdate msg) \<and> read_failure chunks = Some e)"
        using assms Inr start_body [of parse "resp_status response" "resp_text response" chunks] r
        by (auto split: option.splits)
      then show ?thesis
      proof
        assume "ev \<in> set (forward_lines parse (complete_lines (texts_read chunks)))"
        from forward_lines_origin [OF this] Inr True Some show ?thesis by blast
      next
        assume "\<exists>msg e. ev = wire (errorUpdate msg) \<and> read_failure chunks = Some e"
        with Inr Some show ?thesis by blast
      qed
    qed
  qed
qed

lemma well_formed_progress_wire:
  assumes "field a ''status'' = map_option wire (field b ''status'')"
    and "field a ''progress'' = map_option wire (field b ''progress'')"
    and "field a ''message'' = map_option wire (field b ''message'')"
  shows "well_formed_progress a = well_formed_progress b"
proof -
  have s: "list_ex (\<lambda>name. field a ''status'' = Some (JStr name)) stage_names =
      list_ex (\<lambda>name. field b ''status'' = Some (JStr name)) stage_names"
    unfolding assms(1) by (cases "field b ''status''") (simp_all add: wire_eq_JStr)
  have p: "(case field a ''progress'' of
         Some (JNum (Num r)) \<Rightarrow> r = of_int \<lfloor>r\<rfloor> \<and> 0 \<le> r \<and> r \<le> 100
       | _ \<Rightarrow> False) =
       (case field b ''progress'' of
         Some (JNum (Num r)) \<Rightarrow> r = of_int \<lfloor>r\<rfloor> \<and> 0 \<le> r \<and> r \<le> 100
       | _ \<Rightarrow> False)"
    unfolding assms(2)
    by (cases "field b ''progress''")
       (auto split: json.splits js_num.splits)
  have m: "(case field a ''message'' of
         None \<Rightarrow> True
       | Some (JStr m) \<Rightarrow> True
       | _ \<Rightarrow> False) =
       (case field b ''message'' of
         None \<Rightarrow> True
       | Some (JStr m) \<Rightarrow> True
       | _ \<Rightarrow> False)"
    unfolding assms(3)
    by (cases "field b ''message''")
       (auto split: json.splits js_num.splits)
  show ?thesis unfolding well_formed_progress_def using s p m by simp
qed

section \<open>The events of the match stream\<close>

text \<open>
  C1, as the code has it: every terminal success event of the match stream (an event of
  status complete that the route enqueues) has progress 100 and carries only the fields
  status, progress, match, confidence, audioSim and lyricsSim. It was built from a
  complete line that the backend sent and the route read, whose event has status
  complete: its match is an object holding the artist, title and genre of that event's
  match, its confidence is that event's confidence, its audioSim that event's
  audio_similarity, its lyricsSim that event's lyrics_similarity, each left out when the
  backend's event lacks it and each as JSON writes it (a number that is not finite as
  null). It carries no combinedScore, no gap and no top5.
\<close>

theorem complete_event_fields:
  assumes "ev \<in> set (start parse fetched)"
    and "field ev ''status'' = Some (JStr ''complete'')"
  shows "field ev ''progress'' = Some (JNum (Num 100)) \<and>
    set (keys ev) \<subseteq>
      {''status'', ''progress'', ''match'', ''confidence'', ''audioSim'', ''lyricsSim''} \<and>
    field ev ''combinedScore'' = None \<and> field ev ''gap'' = None \<and> field ev ''top5'' = None \<and>
    (\<exists>response chunks line data d m.
       fetched = Inr response \<and> resp_ok response \<and> resp_body response = Some chunks \<and>
       line \<in> set (complete_lines (texts_read chunks)) \<and>
       line_update parse line = Some data \<and>
       field data ''status'' = Some (JStr ''complete'') \<and>
       field data ''match'' = Some d \<and> field ev ''match'' = Some m \<and>
       field m ''artist'' = map_option wire (field d ''artist'') \<and>
       field m ''title'' = map_option wire (field d ''title'') \<and>
       field m ''genre'' = map_option wire (field d ''genre'') \<and>
       set (keys m) \<subseteq> {''artist'', ''title'', ''genre''} \<and>
       field ev ''confidence'' = map_option wire (field data ''confidence'') \<and>
       field ev ''audioSim'' = map_option wire (field data ''audio_similarity'') \<and>
       field ev ''lyricsSim'' = map_option wire (field data ''lyrics_similarity''))"
proof -
  from start_origin [OF assms(1)] assms(2)
  obtain response chunks line data u where
    origin: "fetched = Inr response" "resp_ok response" "resp_body response = Some chunks"
      "line \<in> set (complete_lines (texts_read chunks))" "line_update parse line = Some data"
    and t: "transform data = Inr u" and w: "ev = wire u"
    by (auto simp: wire_errorUpdate)
  let ?m = "\<lambda>d. obj_literal
      [(''artist'', field d ''artist''), (''title'', field d ''title''),
       (''genre'', field d ''genre'')]"
  have su: "field u ''status'' = Some (JStr ''complete'')"
    using assms(2) unfolding w field_wire
    by (cases "field u ''status''") (simp_all add: wire_eq_JStr)
  from transform_Inr [OF t] su
  obtain d where st: "field data ''status'' = Some (JStr ''complete'')"
    and m: "field data ''match'' = Some d"
    and u: "u = obj_literal
           [(''status'', Some (JStr ''complete'')),
            (''progress'', Some (JNum (Num 100))),
            (''match'', Some (?m d)),
            (''confidence'', field data ''confidence''),
            (''audioSim'', field data ''audio_similarity''),
            (''lyricsSim'', field data ''lyrics_similarity'')]"
    by (auto simp: field_obj_literal)
  have k: "set (keys ev) \<subseteq>
      {''status'', ''progress'', ''match'', ''confidence'', ''audioSim'', ''lyricsSim''}"
    unfolding w keys_wire u by (rule subset_trans [OF keys_obj_literal]) simp
  have km: "set (keys (wire (?m d))) \<subseteq> {''artist'', ''title'', ''genre''}"
    unfolding keys_wire by (rule subset_trans [OF keys_obj_literal]) simp
  have f: "field ev ''progress'' = Some (JNum (Num 100))" "field ev ''combinedScore'' = None"
    "field ev ''gap'' = None" "field ev ''top5'' = None"
    "field ev ''match'' = Some (wire (?m d))"
    "field ev ''confidence'' = map_option wire (field data ''confidence'')"
    "field ev ''audioSim'' = map_option wire (field data ''audio_similarity'')"
    "field ev ''lyricsSim'' = map_option wire (field data ''lyrics_similarity'')"
    unfolding w field_wire u by (simp_all add: field_obj_literal)
  have fm: "field (wire (?m d)) ''artist'' = map_option wire (field d ''artist'')"
    "field (wire (?m d)) ''title'' = map_option wire (field d ''title'')"
    "field (wire (?m d)) ''genre'' = map_option wire (field d ''genre'')"
    unfolding field_wire by (simp_all add: field_obj_literal)
  show ?thesis using origin st m k km f fm by blast
qed

theorem complete_event_fields_witness:
  "forwarded_complete \<in> set (start sample_parse
      (Inr (BackendResponse True 200 (Inr []) (Some [Chunk (sse_line backend_complete_text)])))) \<and>
   field forwarded_complete ''status'' = Some (JStr ''complete'') \<and>
   field forwarded_complete ''progress'' = Some (JNum (Num 100)) \<and>
   field forwarded_complete ''gap'' = None"
proof -
  have h1: "forwarded_complete \<in> set (start sample_parse
      (Inr (BackendResponse True 200 (Inr []) (Some [Chunk (sse_line backend_complete_text)]))))"
    by code_simp
  have h2: "field forwarded_complete ''status'' = Some (JStr ''complete'')"
    by simp
  from complete_event_fields [OF h1 h2] h1 h2 show ?thesis by blast
qed

text \<open>
  C1 as the spec states it fails: a backend event of status complete that carries
  combinedScore, gap and top5 is forwarded as a terminal success event without them.
\<close>

theorem complete_event_counterexample:
  "line_update sample_parse (''data: '' @ backend_complete_text) = Some backend_complete \<and>
   start sample_parse
      (Inr (BackendResponse True 200 (Inr []) (Some [Chunk (sse_line backend_complete_text)])))
     = [forwarded_complete] \<and>
   field backend_complete ''combinedScore'' = Some (JNum (Num 0.575)) \<and>
   field backend_complete ''gap'' = Some (JNum (Num 0.03)) \<and>
   field backend_complete ''top5'' = Some (JArr []) \<and>
   field forwarded_complete ''combinedScore'' = None \<and>
   field forwarded_complete ''gap'' = None \<and>
   field forwarded_complete ''top5'' = None"
  by code_simp

text \<open>
  C2, as the code has it: every terminal failure event of the match stream (an event of
  status error that the route enqueues) has exactly the fields status, progress and
  error, and no field named message. Either the route built it for a failure of its own
  (the call to the backend failed, the backend answered with a non-OK status or without
  a body, a read of the backend's stream threw), with progress 0 and the description in
  error; or it was built from a complete line that the backend sent and the route read,
  whose event has status error, and then progress is that event's progress, 0 when it is
  missing or falsy, and error is that event's error, else its message, else the text
  Unknown error, each as JSON writes it (a number that is not finite as null). The
  route copies the progress; it computes no milestone.
\<close>

theorem error_event_fields:
  assumes "ev \<in> set (start parse fetched)"
    and "field ev ''status'' = Some (JStr ''error'')"
  shows "keys ev = [''status'', ''progress'', ''error''] \<and> field ev ''message'' = None \<and>
    ((\<exists>msg. field ev ''progress'' = Some (JNum (Num 0)) \<and> field ev ''error'' = Some (JStr msg) \<and>
        ((\<exists>e. fetched = Inl e) \<or>
         (\<exists>response. fetched = Inr response \<and>
            (resp_ok response \<longrightarrow> resp_body response = None \<or>
               (\<exists>chunks e. resp_body response = Some chunks \<and>
                  read_failure chunks = Some e))))) \<or>
     (\<exists>response chunks line data.
        fetched = Inr response \<and> resp_ok response \<and> resp_body response = Some chunks \<and>
        line \<in> set (complete_lines (texts_read chunks)) \<and>
        line_update parse line = Some data \<and>
        field data ''status'' = Some (JStr ''error'') \<and>
        field ev ''progress'' =
          map_option wire (js_or (field data ''progress'') (Some (JNum (Num 0)))) \<and>
        field ev ''error'' =
          map_option wire
            (js_or (js_or (field data ''error'') (field data ''message''))
               (Some (JStr ''Unknown error'')))))"
proof -
  from start_origin [OF assms(1)]
  show ?thesis
  proof
    assume "\<exists>msg. ev = wire (errorUpdate msg) \<and>
      ((\<exists>e. fetched = Inl e) \<or>
       (\<exists>response. fetched = Inr response \<and>
          (resp_ok response \<longrightarrow> resp_body response = None \<or>
             (\<exists>chunks e. resp_body response = Some chunks \<and> read_failure chunks = Some e))))"
    then obtain msg where ev: "ev = wire (errorUpdate msg)"
      and own: "(\<exists>e. fetched = Inl e) \<or>
       (\<exists>response. fetched = Inr response \<and>
          (resp_ok response \<longrightarrow> resp_body response = None \<or>
             (\<exists>chunks e. resp_body response = Some chunks \<and> read_failure chunks = Some e)))"
      by blast
    have "keys ev = [''status'', ''progress'', ''error'']" "field ev ''message'' = None"
      "field ev ''progress'' = Some (JNum (Num 0))" "field ev ''error'' = Some (JStr msg)"
      unfolding ev wire_errorUpdate by simp_all
    with own show ?thesis by blast
  next
    assume "\<exists>response chunks line data u.
       fetched = Inr response \<and> resp_ok response \<and> resp_body response = Some chunks \<and>
       line \<in> set (complete_lines (texts_read chunks)) \<and>
       line_update parse line = Some data \<and> transform data = Inr u \<and> ev = wire u"
    then obtain response chunks line data u where
      origin: "fetched = Inr response" "resp_ok response" "resp_body response = Some chunks"
        "line \<in> set (complete_lines (texts_read chunks))" "line_update parse line = Some data"
      and t: "transform data = Inr u" and w: "ev = wire u"
      by blast
    let ?p = "js_or (field data ''progress'') (Some (JNum (Num 0)))"
    let ?e = "js_or (js_or (field data ''error'') (field data ''message''))
                (Some (JStr ''Unknown error''))"
    have su: "field u ''status'' = Some (JStr ''error'')"
      using assms(2) unfolding w field_wire
      by (cases "field u ''status''") (simp_all add: wire_eq_JStr)
    from transform_Inr [OF t] su
    have st: "field data ''status'' = Some (JStr ''error'')"
      and u: "u = obj_literal
          [(''status'', Some (JStr ''error'')), (''progress'', ?p), (''error'', ?e)]"
      by (auto simp: field_obj_literal)
    obtain p where p: "?p = Some p" using js_or_Some by blast
    obtain e where e: "?e = Some e" using js_or_Some by blast
    have "keys ev = [''status'', ''progress'', ''error'']"
      unfolding w keys_wire u by (simp add: obj_literal_def p e)
    moreover have "field ev ''message'' = None" "field ev ''progress'' = map_option wire ?p"
      "field ev ''error'' = map_option wire ?e"
      unfolding w field_wire u by (simp_all add: field_obj_literal)
    ultimately show ?thesis using origin st by blast
  qed
qed

theorem error_event_fields_witness:
  "forwarded_error \<in> set (start sample_parse
      (Inr (BackendResponse True 200 (Inr []) (Some [Chunk (sse_line backend_error_text)])))) \<and>
   field forwarded_error ''status'' = Some (JStr ''error'') \<and>
   keys forwarded_error = [''status'', ''progress'', ''error''] \<and>
   field forwarded_error ''message'' = None"
proof -
  have h1: "forwarded_error \<in> set (start sample_parse
      (Inr (BackendResponse True 200 (Inr []) (Some [Chunk (sse_line backend_error_text)]))))"
    by code_simp
  have h2: "field forwarded_error ''status'' = Some (JStr ''error'')"
    by simp
  from error_event_fields [OF h1 h2] h1 h2 show ?thesis by blast
qed

text \<open>
  C2 as the spec states it fails. The backend's failure event with its description in
  message is forwarded with the description in a field named error and without a field
  named message. A backend failure event with progress 37.5 is forwarded with progress
  37.5, which is the milestone of no stage (0, 25, 50, 75, 90, 100). And a failure of the
  backend's answer itself (status 500) gives an event with progress 0, whatever stage
  had been reached.
\<close>

theorem error_event_counterexample:
  "start sample_parse
      (Inr (BackendResponse True 200 (Inr []) (Some [Chunk (sse_line backend_error_text)])))
     = [forwarded_error] \<and>
   field backend_error ''message'' = Some (JStr ''Download failed'') \<and>
   field forwarded_error ''message'' = None \<and>
   field forwarded_error ''error'' = Some (JStr ''Download failed'') \<and>
   start sample_parse
      (Inr (BackendResponse True 200 (Inr []) (Some [Chunk (sse_line backend_odd_error_text)])))
     = [forwarded_odd_error] \<and>
   field forwarded_odd_error ''progress'' = Some (JNum (Num 37.5)) \<and>
   JNum (Num 37.5) \<notin> set (map (JNum \<circ> Num) [0, 25, 50, 75, 90, 100]) \<and>
   start sample_parse
      (Inr (BackendResponse False 500 (Inr ''Transcription failed'') None))
     = [JObj [(''status'', JStr ''error''), (''progress'', JNum (Num 0)),
              (''error'', JStr ''Backend error: 500 - Transcription failed'')]]"
  by code_simp

text \<open>
  C7, as the code has it: every non-terminal event the route forwards (an event whose
  status is neither complete nor error) was built from a complete line that the backend
  sent and the route read, and carries only the fields status, progress and message, each
  equal to the field of that name of the line's event as JSON writes it (a number that
  is not finite as null) and left out when the line's event lacks it. The route checks
  none of them: the forwarded event has one of the four stage names as status, an
  integer from 0 to 100 as progress and a string, if anything, as message exactly when
  the backend's event has.
\<close>

theorem progress_event_fields:
  assumes "ev \<in> set (start parse fetched)"
    and "field ev ''status'' \<noteq> Some (JStr ''complete'')"
    and "field ev ''status'' \<noteq> Some (JStr ''error'')"
  shows "set (keys ev) \<subseteq> {''status'', ''progress'', ''message''} \<and>
    (\<exists>response chunks line data.
       fetched = Inr response \<and> resp_ok response \<and> resp_body response = Some chunks \<and>
       line \<in> set (complete_lines (texts_read chunks)) \<and>
       line_update parse line = Some data \<and>
       field ev ''status'' = map_option wire (field data ''status'') \<and>
       field ev ''progress'' = map_option wire (field data ''progress'') \<and>
       field ev ''message'' = map_option wire (field data ''message'') \<and>
       well_formed_progress ev = well_formed_progress data)"
proof -
  from start_origin [OF assms(1)] assms(3)
  obtain response chunks line data u where
    origin: "fetched = Inr response" "resp_ok response" "resp_body response = Some chunks"
      "line \<in> set (complete_lines (texts_read chunks))" "line_update parse line = Some data"
    and t: "transform data = Inr u" and w: "ev = wire u"
    by (auto simp: wire_errorUpdate)
  have su: "field u ''status'' \<noteq> Some (JStr ''complete'')"
    "field u ''status'' \<noteq> Some (JStr ''error'')"
    using assms(2,3) unfolding w field_wire by auto
  from transform_Inr [OF t] su
  have u: "u = obj_literal
          [(''status'', field data ''status''), (''progress'', field data ''progress''),
           (''message'', field data ''message'')]"
    by (auto simp: field_obj_literal)
  have k: "set (keys ev) \<subseteq> {''status'', ''progress'', ''message''}"
    unfolding w keys_wire u by (rule subset_trans [OF keys_obj_literal]) simp
  have f: "field ev ''status'' = map_option wire (field data ''status'')"
    "field ev ''progress'' = map_option wire (field data ''progress'')"
    "field ev ''message'' = map_option wire (field data ''message'')"
    unfolding w field_wire by (subst u, simp add: field_obj_literal)+
  from well_formed_progress_wire [OF f]
  have "well_formed_progress ev = well_formed_progress data" .
  with origin k f show ?thesis by blast
qed

theorem progress_event_fields_witness:
  "forwarded_progress \<in> set (start sample_parse
      (Inr (BackendResponse True 200 (Inr []) (Some [Chunk (sse_line backend_progress_text)])))) \<and>
   field forwarded_progress ''status'' = Some (JStr ''downloading'') \<and>
   set (keys forwarded_progress) \<subseteq> {''status'', ''progress'', ''message''}"
proof -
  have h1: "forwarded_progress \<in> set (start sample_parse
      (Inr (BackendResponse True 200 (Inr []) (Some [Chunk (sse_line backend_progress_text)]))))"
    by code_simp
  have h2: "field forwarded_progress ''status'' \<noteq> Some (JStr ''complete'')"
    "field forwarded_progress ''status'' \<noteq> Some (JStr ''error'')"
    by simp_all
  from progress_event_fields [OF h1 h2] h1 show ?thesis by simp
qed

text \<open>
  C7 as the spec states it fails: a backend event of status queued with progress 150 and
  a number as message is forwarded unchanged, and a backend event whose progress is too
  large for a double is forwarded with progress null.
\<close>

theorem progress_event_counterexample:
  "start sample_parse
      (Inr (BackendResponse True 200 (Inr []) (Some [Chunk (sse_line backend_queued_text)])))
     = [backend_queued] \<and>
   field backend_queued ''status'' = Some (JStr ''queued'') \<and>
   field backend_queued ''progress'' = Some (JNum (Num 150)) \<and>
   field backend_queued ''message'' = Some (JNum (Num 7)) \<and>
   \<not> well_formed_progress backend_queued \<and>
   start sample_parse
      (Inr (BackendResponse True 200 (Inr []) (Some [Chunk (sse_line backend_overflow_text)])))
     = [forwarded_overflow] \<and>
   field forwarded_overflow ''progress'' = Some JNull"
  by code_simp

section \<open>Request validation\<close>

text \<open>
  C8: for every input, a string that cannot be parsed as a URL included,
  isValidYouTubeUrl returns a boolean and never throws; when the URL constructor throws,
  the exception is caught and the result is false.
\<close>

theorem isValidYouTubeUrl_never_throws:
  "(\<exists>b. isValidYouTubeUrl URL url = Inr b) \<and>
   (\<forall>e. URL url = Inl e \<longrightarrow> isValidYouTubeUrl URL url = Inr False)"
  by (cases "URL url")
     (auto simp: isValidYouTubeUrl_def try_catch_def bind_exn_def Let_def)

theorem isValidYouTubeUrl_never_throws_witness:
  "sample_URL (JStr ''not a url'') = Inl (JsError ''Invalid URL'') \<and>
   isValidYouTubeUrl sample_URL (JStr ''not a url'') = Inr False"
proof -
  have h: "sample_URL (JStr ''not a url'') = Inl (JsError ''Invalid URL'')"
    by simp
  from isValidYouTubeUrl_never_throws [of sample_URL "JStr ''not a url''"] h
  show ?thesis by blast
qed

text \<open>
  The three answers of the handler. A body that parses to a value other than null and
  whose youtubeUrl is missing or falsy, or fails isValidYouTubeUrl, is answered with
  HTTP 400. A body that is null or does not parse is answered with HTTP 500. A stream is
  opened only for a body whose youtubeUrl is truthy and passes isValidYouTubeUrl, and it
  is the stream of \<open>start\<close>.
\<close>

lemma POST_400:
  assumes "request_json = Inr body" and "body \<noteq> JNull"
    and "\<not> truthy (field body ''youtubeUrl'') \<or>
       (\<exists>url. field body ''youtubeUrl'' = Some url \<and> isValidYouTubeUrl URL url = Inr False)"
  shows "\<exists>msg. POST URL parse request_json fetched =
                JsonResponse 400 (JObj [(''error'', JStr msg)])"
proof -
  from assms have gp: "get_prop (Some body) ''youtubeUrl'' = Inr (field body ''youtubeUrl'')"
    by (simp add: get_prop_field)
  show ?thesis
  proof (cases "field body ''youtubeUrl''")
    case None
    with assms gp show ?thesis by (simp add: POST_def bind_exn_def obj_literal_def)
  next
    case (Some url)
    with assms gp show ?thesis
      by (cases "truthy (Some url)") (auto simp: POST_def bind_exn_def obj_literal_def)
  qed
qed

lemma POST_500:
  assumes "request_json = Inr JNull \<or> (\<exists>e. request_json = Inl e)"
  shows "\<exists>msg. POST URL parse request_json fetched =
                JsonResponse 500
                  (JObj [(''error'', JStr ''Failed to process request''), (''details'', JStr msg)])"
  using assms by (auto simp: POST_def bind_exn_def obj_literal_def)



text \<open>
  C4 does not hold of the code for a request whose body is the JSON value null. Such a
  request carries no YouTube URL. The read of \<^verbatim>\<open>body.youtubeUrl\<close> at line 94 throws
  before the test that answers 400, and the outer \<^verbatim>\<open>catch\<close> answers HTTP 500 with the
  text of the TypeError in the details. The same missing URL in the body \<^verbatim>\<open>{}\<close>
  reaches the test and is answered with HTTP 400 and the error YouTube URL is required.
  No stream is opened in either case.
\<close>

theorem missing_url_null_body:
  "POST sample_URL sample_parse (Inr JNull) (Inl (JsError ''fetch failed'')) =
     JsonResponse 500
       (JObj [(''error'', JStr ''Failed to process request''),
              (''details'', JStr (''Cannot read properties of null (reading '' @ [CHR 0x27] @
                 ''youtubeUrl'' @ [CHR 0x27] @ '')''))]) \<and>
   POST sample_URL sample_parse (Inr (JObj [])) (Inl (JsError ''fetch failed'')) =
     JsonResponse 400 (JObj [(''error'', JStr ''YouTube URL is required'')])"
  by code_simp

section \<open>The list of songs\<close>

text \<open>
  C9: in every 200 response of GET /api/songs the count field is the length of the songs
  value of the same response (\<^verbatim>\<open>songs.length\<close>): for a songs array, the number of its
  elements.
\<close>

theorem songs_count:
  assumes "GET parse file = JsonResponse 200 body"
  shows "\<exists>songs. field body ''songs'' = Some songs \<and>
     get_prop (Some songs) ''length'' = Inr (field body ''count'') \<and>
     (\<forall>xs. songs = JArr xs \<longrightarrow> field body ''count'' = Some (JNum (Num (of_nat (length xs)))))"
proof -
  from assms obtain fileContent songs len where
    "file = Inr fileContent" "parse fileContent = Inr songs"
    "get_prop (Some songs) ''length'' = Inr len"
    "body = obj_literal [(''songs'', Some songs), (''count'', len)]"
    by (auto simp: GET_def bind_exn_def split: sum.splits js_exn.splits if_splits)
  then show ?thesis by (auto simp: field_obj_literal)
qed

theorem songs_count_witness:
  "GET sample_parse (Inr songs_text) =
     JsonResponse 200 (JObj [(''songs'', songs_value), (''count'', JNum (Num 2))]) \<and>
   field (JObj [(''songs'', songs_value), (''count'', JNum (Num 2))]) ''count'' =
     Some (JNum (Num 2))"
proof -
  have h: "GET sample_parse (Inr songs_text) =
     JsonResponse 200 (JObj [(''songs'', songs_value), (''count'', JNum (Num 2))])"
    by code_simp
  from songs_count [OF h] h show ?thesis by simp
qed

section \<open>The loop of the hook\<close>











section \<open>The error state of the hook\<close>

text \<open>
  C10 does not hold of the code when the stream fails right after the chunk that carries
  the terminal error event. The \<^verbatim>\<open>break\<close> of line 85 leaves the \<^verbatim>\<open>for\<close> loop only:
  the \<^verbatim>\<open>while\<close> loop reads again, the read of the failed stream throws, and the
  \<^verbatim>\<open>catch\<close> of lines 92 to 95 replaces the error state by the message of that
  exception. The first part of the claim holds on this input: the reader has been
  cancelled and isStreaming is false. The terminal event says Download failed, and the
  hook ends with the error terminated.
\<close>

theorem startMatch_error_overwritten:
  "line_update sample_parse (''data: '' @ forwarded_error_text) = Some forwarded_error \<and>
   is_terminal forwarded_error \<and>
   field forwarded_error ''error'' = Some (JStr ''Download failed'') \<and>
   startMatch (\<lambda>v. []) sample_parse
       \<lparr>currentUpdate = Some JNull, isStreaming = False, error = Some JNull\<rparr>
       (Inr (ClientResponse True 200 (Inl (JsError ''Unexpected token''))
          (Some [Chunk (sse_line backend_progress_text),
                 Chunk (sse_line forwarded_error_text @ sse_line backend_progress_text),
                 ReadThrows (JsError ''terminated'') True]))) =
     (\<lparr>currentUpdate = Some forwarded_error, isStreaming = False,
       error = Some (JStr ''terminated'')\<rparr>, True)"
  by code_simp

section \<open>Terminal events\<close>




section \<open>From the classifier to the page\<close>





















lemma results_section_confidence:
  assumes "result st = Some r" and "processingStage st = Complete"
  shows "(results_section st = NoMatchFound) =
           (confidence r \<noteq> Some (JStr ''HIGH'') \<and> confidence r \<noteq> Some (JStr ''MODERATE'') \<and>
            confidence r \<noteq> Some (JStr ''LOW''))"
    and "shows_track (results_section st) = (results_section st \<noteq> NoMatchFound)"
  using assms by (auto simp: results_section_def)

section \<open>A match of very low confidence\<close>



end
